theory Spec2Isabelle
  imports Main
begin

section \<open>SocketInsight: a reconnecting wrapper around one WebSocket\<close>

text \<open>
  The development embeds the class \<^verbatim>\<open>SocketInsight\<close> of \<^verbatim>\<open>src/index.js\<close>. The object
  is a record of its five fields; everything the methods do to the outside (console
  output, transport calls, timers, calls of user callbacks) is appended to a trace of
  effects, in program order.
\<close>

subsection \<open>Values\<close>

text \<open>
  The values handed to user callbacks: numbers (integers here: close codes), strings,
  and the error event object, of which the code only reads \<^verbatim>\<open>message\<close>.
\<close>

datatype jsval = JNum int | JStr string | JErrorEvent string

text \<open>A user callback is an opaque function value, known by its identity.\<close>

type_synonym callback = nat

text \<open>
  An options object whose properties hold integers: a missing property reads as
  \<^verbatim>\<open>undefined\<close>, here \<open>None\<close>.
\<close>

type_synonym options = "string \<rightharpoonup> int"

text \<open>
  \<^verbatim>\<open>v || d\<close> on such a property: \<^verbatim>\<open>undefined\<close> and \<^verbatim>\<open>0\<close> are the falsy values it can
  take, every other integer (negative ones too) is truthy.
\<close>

definition js_or :: "int option \<Rightarrow> int \<Rightarrow> int" where
  "js_or v d = (case v of None \<Rightarrow> d | Some n \<Rightarrow> if n = 0 then d else n)"

text \<open>Decimal rendering of an integer inside a template literal.\<close>

fun string_of_nat :: "nat \<Rightarrow> string" where
  "string_of_nat n =
     (if n < 10 then [char_of (48 + n)]
      else string_of_nat (n div 10) @ [char_of (48 + n mod 10)])"

declare string_of_nat.simps [simp del]

definition string_of_int :: "int \<Rightarrow> string" where
  "string_of_int i =
     (if i < 0 then CHR ''-'' # string_of_nat (nat (- i)) else string_of_nat (nat i))"

subsection \<open>The transport and the environment\<close>

text \<open>\<^verbatim>\<open>WebSocket.CONNECTING\<close>, \<^verbatim>\<open>OPEN\<close>, \<^verbatim>\<open>CLOSING\<close>, \<^verbatim>\<open>CLOSED\<close> are 0, 1, 2, 3.\<close>

datatype readyState = CONNECTING | OPEN | CLOSING | CLOSED

fun readyState_num :: "readyState \<Rightarrow> int" where
  "readyState_num CONNECTING = 0"
| "readyState_num OPEN = 1"
| "readyState_num CLOSING = 2"
| "readyState_num CLOSED = 3"

text \<open>
  Effects, as they leave the object. A WebSocket object is named by the index at which
  it was created; \<open>AddEventListener s e\<close> attaches the bound method \<^verbatim>\<open>handle\<close>\<open>e\<close> to
  socket \<open>s\<close>; \<open>SetTimeout d\<close> schedules the retry closure of \<^verbatim>\<open>handleClose\<close> after
  \<open>d\<close> milliseconds.
\<close>

datatype effect =
    ConsoleLog string
  | ConsoleError string
  | NewWebSocket nat string
  | AddEventListener nat string
  | SetTimeout int
  | Invoke callback "jsval list"
  | SocketSend nat string
  | SocketClose nat int string

record SocketInsight =
  url :: string
  retryAttempts :: int
  retryDelay :: int
  listeners :: "string \<rightharpoonup> callback"
  socket :: nat

text \<open>
  The object together with what surrounds it: the ready state of every WebSocket object
  created so far, the delays of the pending retry timers (oldest first), and the trace.
\<close>

record world =
  self :: SocketInsight
  sockets :: "readyState list"
  timers :: "int list"
  trace :: "effect list"

record CloseEvent =
  code :: int
  reason :: string

definition emit :: "effect list \<Rightarrow> world \<Rightarrow> world" where
  "emit es w = w\<lparr>trace := trace w @ es\<rparr>"

subsection \<open>The methods\<close>

text \<open>
  \<^verbatim>\<open>connect()\<close>: a new WebSocket replaces \<^verbatim>\<open>this.socket\<close>, and the four handlers are
  attached to it. The new object starts in state CONNECTING.
\<close>

definition connect :: "world \<Rightarrow> world" where
  "connect w =
     (let s = length (sockets w) in
      emit [NewWebSocket s (url (self w)),
            AddEventListener s ''open'', AddEventListener s ''message'',
            AddEventListener s ''close'', AddEventListener s ''error'']
        (w\<lparr>self := (self w)\<lparr>socket := s\<rparr>, sockets := sockets w @ [CONNECTING]\<rparr>))"

text \<open>
  \<^verbatim>\<open>constructor(url, options = {})\<close>. The field \<^verbatim>\<open>socket\<close> does not exist before
  \<^verbatim>\<open>connect()\<close> has run; the 0 below is overwritten by it at once.
\<close>

definition constructor :: "string \<Rightarrow> options option \<Rightarrow> world" where
  "constructor u opt =
     (let options = (case opt of None \<Rightarrow> Map.empty | Some ob \<Rightarrow> ob) in
      connect
        \<lparr>self = \<lparr>url = u,
                 retryAttempts = js_or (options ''retryAttempts'') 3,
                 retryDelay = js_or (options ''retryDelay'') 1000,
                 listeners = Map.empty,
                 socket = 0\<rparr>,
         sockets = [], timers = [], trace = []\<rparr>)"

text \<open>\<^verbatim>\<open>if (this.listeners.e) { this.listeners.e(args) }\<close>\<close>

definition call_listener :: "string \<Rightarrow> jsval list \<Rightarrow> world \<Rightarrow> world" where
  "call_listener e args w =
     (case listeners (self w) e of None \<Rightarrow> w | Some f \<Rightarrow> emit [Invoke f args] w)"

definition handleOpen :: "world \<Rightarrow> world" where
  "handleOpen w =
     call_listener ''open'' []
       (emit [ConsoleLog (''[SocketInsight] Connected to '' @ url (self w))] w)"

definition handleMessage :: "string \<Rightarrow> world \<Rightarrow> world" where
  "handleMessage data w =
     call_listener ''message'' [JStr data]
       (emit [ConsoleLog (''[SocketInsight] Received message: '' @ data)] w)"

text \<open>The closure given to \<^verbatim>\<open>setTimeout\<close> in \<^verbatim>\<open>handleClose\<close>, run when the timer fires.\<close>

definition retry :: "world \<Rightarrow> world" where
  "retry w = connect (w\<lparr>self := (self w)\<lparr>retryAttempts := retryAttempts (self w) - 1\<rparr>\<rparr>)"

definition handleClose :: "CloseEvent \<Rightarrow> world \<Rightarrow> world" where
  "handleClose event w =
     (let w1 = emit [ConsoleLog (''[SocketInsight] Disconnected with code ''
                       @ string_of_int (code event) @ '' and reason: '' @ reason event)] w;
          w2 = (if code event \<noteq> 1000 \<and> retryAttempts (self w1) > 0
                then (emit [ConsoleLog (''[SocketInsight] Retrying connection in ''
                              @ string_of_int (retryDelay (self w1)) @ ''ms...''),
                            SetTimeout (retryDelay (self w1))] w1)
                       \<lparr>timers := timers w1 @ [retryDelay (self w1)]\<rparr>
                else w1)
      in call_listener ''close'' [JNum (code event), JStr (reason event)] w2)"

definition handleError :: "string \<Rightarrow> world \<Rightarrow> world" where
  "handleError message w =
     call_listener ''error'' [JErrorEvent message]
       (emit [ConsoleError (''[SocketInsight] Error: '' @ message)] w)"

text \<open>
  \<^verbatim>\<open>this.socket\<close> always names a created socket once the constructor has returned; the
  read below is guarded all the same, an unknown socket being no open one.
\<close>

definition socket_readyState :: "world \<Rightarrow> readyState option" where
  "socket_readyState w =
     (if socket (self w) < length (sockets w) then Some (sockets w ! socket (self w))
      else None)"

definition sendMessage :: "string \<Rightarrow> world \<Rightarrow> world" where
  "sendMessage message w =
     (if socket_readyState w = Some OPEN
      then emit [SocketSend (socket (self w)) message,
                 ConsoleLog (''[SocketInsight] Sent message: '' @ message)] w
      else emit [ConsoleError
                   (''[SocketInsight] Cannot send message, WebSocket is not open. Current readyState: ''
                    @ (case socket_readyState w of None \<Rightarrow> ''undefined''
                       | Some r \<Rightarrow> string_of_int (readyState_num r)))] w)"

text \<open>
  Modelled from the spec: the transport is the package \<^verbatim>\<open>ws\<close>, which is no part of the
  sources. \<^verbatim>\<open>socket.close(code, reason)\<close> starts the closing handshake: a socket that is
  CONNECTING or OPEN becomes CLOSING, a socket that is CLOSING or CLOSED stays as it
  is. The closure itself is reported later, by a close event.
\<close>

definition socket_close :: "nat \<Rightarrow> int \<Rightarrow> string \<Rightarrow> world \<Rightarrow> world" where
  "socket_close s c r w =
     emit [SocketClose s c r]
       (if s < length (sockets w) \<and> (sockets w ! s = CONNECTING \<or> sockets w ! s = OPEN)
        then w\<lparr>sockets := (sockets w)[s := CLOSING]\<rparr> else w)"

definition closeConnection :: "world \<Rightarrow> world" where
  "closeConnection w =
     emit [ConsoleLog (''[SocketInsight] Closed connection to '' @ url (self w))]
       (socket_close (socket (self w)) 1000 ''Client closed the connection'' w)"

definition on :: "string \<Rightarrow> callback \<Rightarrow> world \<Rightarrow> world" where
  "on event listener w =
     w\<lparr>self := (self w)\<lparr>listeners := (listeners (self w))(event \<mapsto> listener)\<rparr>\<rparr>"

subsection \<open>Event dispatch\<close>

text \<open>
  What can happen to a SocketInsight: its transport reports an event on one of the
  sockets, the oldest pending timer fires, or the caller uses one of the three public
  methods.

  Modelled from the spec: the life of one transport follows the state machine of
  section 4.1. A socket opens only while CONNECTING, delivers messages only once open,
  and reports its closure once: no event comes from a socket that is CLOSED. The retry
  timers all carry the same delay, so they fire in the order in which they were set.
  An event that cannot happen in the current state gives \<open>None\<close>.

  What a user callback does is not part of the object. Every handler calls its callback
  as its last step, so a callback that uses the public methods shows as the call events
  that follow the event which called it. A callback that throws is not modelled.
\<close>

datatype event =
    Opened nat
  | Message nat string
  | Closed nat int string
  | Errored nat string
  | TimerFired
  | CallOn string callback
  | CallSendMessage string
  | CallCloseConnection

fun dispatch :: "event \<Rightarrow> world \<Rightarrow> world option" where
  "dispatch (Opened s) w =
     (if s < length (sockets w) \<and> sockets w ! s = CONNECTING
      then Some (handleOpen (w\<lparr>sockets := (sockets w)[s := OPEN]\<rparr>)) else None)"
| "dispatch (Message s data) w =
     (if s < length (sockets w) \<and> (sockets w ! s = OPEN \<or> sockets w ! s = CLOSING)
      then Some (handleMessage data w) else None)"
| "dispatch (Closed s c r) w =
     (if s < length (sockets w) \<and> sockets w ! s \<noteq> CLOSED
      then Some (handleClose \<lparr>code = c, reason = r\<rparr> (w\<lparr>sockets := (sockets w)[s := CLOSED]\<rparr>))
      else None)"
| "dispatch (Errored s message) w =
     (if s < length (sockets w) \<and> sockets w ! s \<noteq> CLOSED
      then Some (handleError message w) else None)"
| "dispatch TimerFired w =
     (case timers w of [] \<Rightarrow> None | d # ds \<Rightarrow> Some (retry (w\<lparr>timers := ds\<rparr>)))"
| "dispatch (CallOn e f) w = Some (on e f w)"
| "dispatch (CallSendMessage m) w = Some (sendMessage m w)"
| "dispatch CallCloseConnection w = Some (closeConnection w)"

fun run :: "event list \<Rightarrow> world \<Rightarrow> world option" where
  "run [] w = Some w"
| "run (e # es) w = (case dispatch e w of None \<Rightarrow> None | Some w' \<Rightarrow> run es w')"

text \<open>The calls of one callback, and the connects, recorded in a trace.\<close>

definition invocations_of :: "callback \<Rightarrow> effect list \<Rightarrow> effect list" where
  "invocations_of f tr = filter (\<lambda>x. case x of Invoke c a \<Rightarrow> c = f | _ \<Rightarrow> False) tr"

definition invocations :: "effect list \<Rightarrow> effect list" where
  "invocations tr = filter (\<lambda>x. case x of Invoke c a \<Rightarrow> True | _ \<Rightarrow> False) tr"

definition connects :: "effect list \<Rightarrow> nat" where
  "connects tr = length (filter (\<lambda>x. case x of NewWebSocket s u \<Rightarrow> True | _ \<Rightarrow> False) tr)"

definition timeouts :: "effect list \<Rightarrow> int list" where
  "timeouts tr = concat (map (\<lambda>x. case x of SetTimeout d \<Rightarrow> [d] | _ \<Rightarrow> []) tr)"

definition sends :: "effect list \<Rightarrow> (nat \<times> string) list" where
  "sends tr = concat (map (\<lambda>x. case x of SocketSend s m \<Rightarrow> [(s, m)] | _ \<Rightarrow> []) tr)"

subsection \<open>Notions used in the statements and invariants\<close>

text \<open>The four names under which a handler looks a callback up.\<close>

definition event_names :: "string set" where
  "event_names = {''open'', ''message'', ''close'', ''error''}"

text \<open>The callbacks some handler can reach, and the events that make \<open>f\<close> reachable.\<close>

definition active :: "world \<Rightarrow> callback set" where
  "active w = {f. \<exists>e\<in>event_names. listeners (self w) e = Some f}"

definition registers :: "callback \<Rightarrow> event \<Rightarrow> bool" where
  "registers f ev = (case ev of CallOn e g \<Rightarrow> g = f \<and> e \<in> event_names | _ \<Rightarrow> False)"

text \<open>Every timer, pending or ever set, carries the delay \<open>d\<close> of the object.\<close>

definition delay_inv :: "int \<Rightarrow> world \<Rightarrow> bool" where
  "delay_inv d w \<longleftrightarrow>
     retryDelay (self w) = d \<and> set (timers w) \<subseteq> {d} \<and> set (timeouts (trace w)) \<subseteq> {d}"

text \<open>
  The invariant behind the retry budget: the current socket is the last one created,
  every older socket is closed, and a timer is pending only while the current socket is
  closed and budget is left, one timer at most.
\<close>

definition budget_inv :: "world \<Rightarrow> bool" where
  "budget_inv w \<longleftrightarrow>
     length (sockets w) = Suc (socket (self w)) \<and>
     (\<forall>i < socket (self w). sockets w ! i = CLOSED) \<and>
     0 \<le> retryAttempts (self w) \<and>
     (timers w = [] \<or>
      length (timers w) = 1 \<and> sockets w ! socket (self w) = CLOSED \<and> 0 < retryAttempts (self w))"

text \<open>An event other than a clean closure; a world in which nothing is left to happen.\<close>

definition abnormal :: "event \<Rightarrow> bool" where
  "abnormal ev = (case ev of Closed s c r \<Rightarrow> c \<noteq> 1000 | _ \<Rightarrow> True)"

definition quiescent :: "world \<Rightarrow> bool" where
  "quiescent w \<longleftrightarrow> timers w = [] \<and> list_all (\<lambda>r. r = CLOSED) (sockets w)"

definition exhaust_inv :: "int \<Rightarrow> world \<Rightarrow> bool" where
  "exhaust_inv B w \<longleftrightarrow>
     budget_inv w \<and>
     int (length (sockets w)) + retryAttempts (self w) = B + 1 \<and>
     connects (trace w) = length (sockets w) \<and>
     (timers w = [] \<and> sockets w ! socket (self w) = CLOSED \<longrightarrow> retryAttempts (self w) = 0)"

section \<open>What each method changes\<close>

lemmas eval_defs =
  constructor_def connect_def emit_def js_or_def call_listener_def handleOpen_def
  handleMessage_def handleClose_def handleError_def retry_def socket_readyState_def
  sendMessage_def socket_close_def closeConnection_def on_def

lemma emit_simps [simp]:
  "self (emit es w) = self w" "sockets (emit es w) = sockets w"
  "timers (emit es w) = timers w" "trace (emit es w) = trace w @ es"
  by (simp_all add: emit_def)

lemma call_listener_simps [simp]:
  "self (call_listener e a w) = self w" "sockets (call_listener e a w) = sockets w"
  "timers (call_listener e a w) = timers w"
  "trace (call_listener e a w) =
     trace w @ (case listeners (self w) e of None \<Rightarrow> [] | Some f \<Rightarrow> [Invoke f a])"
  by (simp_all add: call_listener_def split: option.split)

lemma connect_simps [simp]:
  "self (connect w) = (self w)\<lparr>socket := length (sockets w)\<rparr>"
  "sockets (connect w) = sockets w @ [CONNECTING]"
  "timers (connect w) = timers w"
  "trace (connect w) =
     trace w @ [NewWebSocket (length (sockets w)) (url (self w)),
                AddEventListener (length (sockets w)) ''open'',
                AddEventListener (length (sockets w)) ''message'',
                AddEventListener (length (sockets w)) ''close'',
                AddEventListener (length (sockets w)) ''error'']"
  by (simp_all add: connect_def Let_def)

lemma retry_simps [simp]:
  "self (retry w) =
     (self w)\<lparr>retryAttempts := retryAttempts (self w) - 1, socket := length (sockets w)\<rparr>"
  "sockets (retry w) = sockets w @ [CONNECTING]"
  "timers (retry w) = timers w"
  "trace (retry w) =
     trace w @ [NewWebSocket (length (sockets w)) (url (self w)),
                AddEventListener (length (sockets w)) ''open'',
                AddEventListener (length (sockets w)) ''message'',
                AddEventListener (length (sockets w)) ''close'',
                AddEventListener (length (sockets w)) ''error'']"
  by (simp_all add: retry_def)

lemma on_simps [simp]:
  "self (on e f w) = (self w)\<lparr>listeners := (listeners (self w))(e \<mapsto> f)\<rparr>"
  "sockets (on e f w) = sockets w" "timers (on e f w) = timers w" "trace (on e f w) = trace w"
  by (simp_all add: on_def)

lemma socket_close_simps [simp]:
  "self (socket_close s c r w) = self w"
  "timers (socket_close s c r w) = timers w"
  "length (sockets (socket_close s c r w)) = length (sockets w)"
  "trace (socket_close s c r w) = trace w @ [SocketClose s c r]"
  by (simp_all add: socket_close_def)

lemma invocations_append [simp]: "invocations (xs @ ys) = invocations xs @ invocations ys"
  by (simp add: invocations_def)

lemma invocations_of_append [simp]:
  "invocations_of f (xs @ ys) = invocations_of f xs @ invocations_of f ys"
  by (simp add: invocations_of_def)

lemma connects_append [simp]: "connects (xs @ ys) = connects xs + connects ys"
  by (simp add: connects_def)

lemma timeouts_append [simp]: "timeouts (xs @ ys) = timeouts xs @ timeouts ys"
  by (simp add: timeouts_def)

lemma sends_append [simp]: "sends (xs @ ys) = sends xs @ sends ys"
  by (simp add: sends_def)

lemma timeouts_simps [simp]:
  "timeouts [] = []"
  "timeouts (SetTimeout d # tr) = d # timeouts tr"
  "timeouts (ConsoleLog x # tr) = timeouts tr"
  "timeouts (ConsoleError x # tr) = timeouts tr"
  "timeouts (NewWebSocket s u # tr) = timeouts tr"
  "timeouts (AddEventListener s n # tr) = timeouts tr"
  "timeouts (Invoke f a # tr) = timeouts tr"
  "timeouts (SocketSend s m # tr) = timeouts tr"
  "timeouts (SocketClose s c r # tr) = timeouts tr"
  by (simp_all add: timeouts_def)

lemma connects_simps [simp]:
  "connects [] = 0"
  "connects (NewWebSocket s u # tr) = Suc (connects tr)"
  "connects (SetTimeout d # tr) = connects tr"
  "connects (ConsoleLog x # tr) = connects tr"
  "connects (ConsoleError x # tr) = connects tr"
  "connects (AddEventListener s n # tr) = connects tr"
  "connects (Invoke f a # tr) = connects tr"
  "connects (SocketSend s m # tr) = connects tr"
  "connects (SocketClose s c r # tr) = connects tr"
  by (simp_all add: connects_def)

lemma invocations_of_simps [simp]:
  "invocations_of f [] = []"
  "invocations_of f (Invoke g a # tr) =
     (if g = f then Invoke g a # invocations_of f tr else invocations_of f tr)"
  "invocations_of f (SetTimeout d # tr) = invocations_of f tr"
  "invocations_of f (ConsoleLog x # tr) = invocations_of f tr"
  "invocations_of f (ConsoleError x # tr) = invocations_of f tr"
  "invocations_of f (NewWebSocket s u # tr) = invocations_of f tr"
  "invocations_of f (AddEventListener s n # tr) = invocations_of f tr"
  "invocations_of f (SocketSend s m # tr) = invocations_of f tr"
  "invocations_of f (SocketClose s c r # tr) = invocations_of f tr"
  by (simp_all add: invocations_of_def)

lemma constructor_fields:
  "retryAttempts (self (constructor u opt)) =
     js_or ((case opt of None \<Rightarrow> Map.empty | Some ob \<Rightarrow> ob) ''retryAttempts'') 3"
  "retryDelay (self (constructor u opt)) =
     js_or ((case opt of None \<Rightarrow> Map.empty | Some ob \<Rightarrow> ob) ''retryDelay'') 1000"
  "url (self (constructor u opt)) = u"
  "listeners (self (constructor u opt)) = Map.empty"
  "socket (self (constructor u opt)) = 0"
  "sockets (constructor u opt) = [CONNECTING]"
  "timers (constructor u opt) = []"
  by (simp_all add: constructor_def Let_def)

lemma handleOpen_frame:
  "self (handleOpen w) = self w" "sockets (handleOpen w) = sockets w"
  "timers (handleOpen w) = timers w"
  by (simp_all add: handleOpen_def)

lemma handleMessage_frame:
  "self (handleMessage d w) = self w" "sockets (handleMessage d w) = sockets w"
  "timers (handleMessage d w) = timers w"
  by (simp_all add: handleMessage_def)

lemma handleError_frame:
  "self (handleError m w) = self w" "sockets (handleError m w) = sockets w"
  "timers (handleError m w) = timers w"
  by (simp_all add: handleError_def)

lemma handler_traces:
  "trace (handleOpen w) =
     trace w @ [ConsoleLog (''[SocketInsight] Connected to '' @ url (self w))]
     @ (case listeners (self w) ''open'' of None \<Rightarrow> [] | Some f \<Rightarrow> [Invoke f []])"
  "trace (handleMessage d w) =
     trace w @ [ConsoleLog (''[SocketInsight] Received message: '' @ d)]
     @ (case listeners (self w) ''message'' of None \<Rightarrow> [] | Some f \<Rightarrow> [Invoke f [JStr d]])"
  "trace (handleError m w) =
     trace w @ [ConsoleError (''[SocketInsight] Error: '' @ m)]
     @ (case listeners (self w) ''error'' of None \<Rightarrow> []
        | Some f \<Rightarrow> [Invoke f [JErrorEvent m]])"
  by (simp_all add: handleOpen_def handleMessage_def handleError_def)

lemma handleClose_frame:
  "self (handleClose ev w) = self w" "sockets (handleClose ev w) = sockets w"
  by (simp_all add: handleClose_def Let_def)

lemma handleClose_timers:
  "timers (handleClose ev w) =
     timers w @ (if code ev \<noteq> 1000 \<and> 0 < retryAttempts (self w)
                 then [retryDelay (self w)] else [])"
  by (simp add: handleClose_def Let_def)

lemma handleClose_trace:
  "trace (handleClose ev w) =
     trace w
     @ [ConsoleLog (''[SocketInsight] Disconnected with code ''
                       @ string_of_int (code ev) @ '' and reason: '' @ reason ev)]
     @ (if code ev \<noteq> 1000 \<and> 0 < retryAttempts (self w)
        then [ConsoleLog (''[SocketInsight] Retrying connection in ''
                              @ string_of_int (retryDelay (self w)) @ ''ms...''),
              SetTimeout (retryDelay (self w))] else [])
     @ (case listeners (self w) ''close'' of None \<Rightarrow> []
        | Some f \<Rightarrow> [Invoke f [JNum (code ev), JStr (reason ev)]])"
  by (simp add: handleClose_def Let_def)

lemma sendMessage_frame:
  "self (sendMessage m w) = self w" "sockets (sendMessage m w) = sockets w"
  "timers (sendMessage m w) = timers w"
  by (simp_all add: sendMessage_def)

lemma sendMessage_quiet:
  "connects (trace (sendMessage m w)) = connects (trace w)"
  "timeouts (trace (sendMessage m w)) = timeouts (trace w)"
  "invocations_of f (trace (sendMessage m w)) = invocations_of f (trace w)"
  by (simp_all add: sendMessage_def)

lemma closeConnection_frame:
  "self (closeConnection w) = self w" "timers (closeConnection w) = timers w"
  "length (sockets (closeConnection w)) = length (sockets w)"
  by (simp_all add: closeConnection_def)

lemma closeConnection_trace:
  "trace (closeConnection w) =
     trace w @ [SocketClose (socket (self w)) 1000 ''Client closed the connection'',
                ConsoleLog (''[SocketInsight] Closed connection to '' @ url (self w))]"
  by (simp add: closeConnection_def)

lemma closeConnection_sockets:
  "sockets (closeConnection w) =
     (if socket (self w) < length (sockets w)
         \<and> (sockets w ! socket (self w) = CONNECTING \<or> sockets w ! socket (self w) = OPEN)
      then (sockets w)[socket (self w) := CLOSING] else sockets w)"
  by (auto simp: closeConnection_def socket_close_def)

section \<open>Invariants of event dispatch\<close>

subsection \<open>The retry delay never changes\<close>

lemma dispatch_delay_inv:
  assumes "delay_inv d w" and "dispatch ev w = Some w'"
  shows "delay_inv d w'"
  using assms
  by (cases ev)
     (auto simp: delay_inv_def handleOpen_frame handleMessage_frame handleError_frame
        handleClose_frame handleClose_timers handleClose_trace handler_traces
        sendMessage_frame sendMessage_quiet closeConnection_frame closeConnection_trace
        split: if_splits option.splits list.splits)

lemma run_delay_inv: "delay_inv d w \<Longrightarrow> run es w = Some w' \<Longrightarrow> delay_inv d w'"
proof (induction es arbitrary: w)
  case Nil
  then show ?case by simp
next
  case (Cons e es)
  then show ?case by (auto split: option.splits dest: dispatch_delay_inv)
qed

lemma constructor_delay_inv:
  "delay_inv (retryDelay (self (constructor u opt))) (constructor u opt)"
  by (simp add: delay_inv_def constructor_def Let_def)

subsection \<open>One live socket or one pending timer, never both\<close>

lemma dispatch_budget_inv:
  assumes "budget_inv w" and "dispatch ev w = Some w'"
  shows "budget_inv w'"
proof (cases ev)
  case (Opened s)
  with assms show ?thesis
    by (auto simp: budget_inv_def handleOpen_frame nth_list_update split: if_splits)
next
  case (Message s d)
  with assms show ?thesis
    by (auto simp: budget_inv_def handleMessage_frame split: if_splits)
next
  case (Closed s c r)
  from assms(2) Closed have en: "s < length (sockets w)" "sockets w ! s \<noteq> CLOSED"
    and w': "w' = handleClose \<lparr>code = c, reason = r\<rparr> (w\<lparr>sockets := (sockets w)[s := CLOSED]\<rparr>)"
    by (auto split: if_splits)
  from assms(1) en have "\<not> s < socket (self w)" and "s < Suc (socket (self w))"
    by (auto simp: budget_inv_def)
  then have cur: "s = socket (self w)" by simp
  with assms(1) en have "timers w = []" by (auto simp: budget_inv_def)
  with assms(1) en cur show ?thesis unfolding w'
    by (simp add: budget_inv_def handleClose_frame handleClose_timers nth_list_update)
next
  case (Errored s m)
  with assms show ?thesis
    by (auto simp: budget_inv_def handleError_frame split: if_splits)
next
  case TimerFired
  with assms show ?thesis
    by (auto simp: budget_inv_def nth_append less_Suc_eq split: list.splits)
next
  case (CallOn e f)
  with assms show ?thesis by (auto simp: budget_inv_def)
next
  case (CallSendMessage m)
  with assms show ?thesis by (auto simp: budget_inv_def sendMessage_frame)
next
  case CallCloseConnection
  with assms show ?thesis
    by (auto simp: budget_inv_def closeConnection_frame closeConnection_sockets nth_list_update)
qed

lemma run_budget_inv: "budget_inv w \<Longrightarrow> run es w = Some w' \<Longrightarrow> budget_inv w'"
proof (induction es arbitrary: w)
  case Nil
  then show ?case by simp
next
  case (Cons e es)
  then show ?case by (auto split: option.splits dest: dispatch_budget_inv)
qed

lemma constructor_budget_inv:
  "0 \<le> retryAttempts (self (constructor u opt)) \<Longrightarrow> budget_inv (constructor u opt)"
  by (simp add: budget_inv_def constructor_fields)

lemma dispatch_exhausted:
  assumes "budget_inv w" and "retryAttempts (self w) = 0" and "dispatch ev w = Some w'"
  shows "retryAttempts (self w') = 0 \<and> connects (trace w') = connects (trace w)
         \<and> timeouts (trace w') = timeouts (trace w)"
proof (cases ev)
  case (Closed s c r)
  with assms show ?thesis
    by (auto simp: handleClose_frame handleClose_trace split: if_splits option.splits)
next
  case TimerFired
  with assms show ?thesis by (auto simp: budget_inv_def split: list.splits)
qed (use assms in \<open>auto simp: handleOpen_frame handleMessage_frame handleError_frame
       handler_traces sendMessage_frame sendMessage_quiet closeConnection_frame
       closeConnection_trace split: if_splits option.splits\<close>)

lemma run_exhausted:
  "budget_inv w \<Longrightarrow> retryAttempts (self w) = 0 \<Longrightarrow> run es w = Some w' \<Longrightarrow>
   retryAttempts (self w') = 0 \<and> connects (trace w') = connects (trace w)
   \<and> timeouts (trace w') = timeouts (trace w)"
proof (induction es arbitrary: w)
  case Nil
  then show ?case by simp
next
  case (Cons e es)
  from Cons.prems obtain w1 where d: "dispatch e w = Some w1" and r: "run es w1 = Some w'"
    by (auto split: option.splits)
  from dispatch_budget_inv[OF Cons.prems(1) d] dispatch_exhausted[OF Cons.prems(1,2) d]
    Cons.IH[OF _ _ r]
  show ?case by simp
qed

subsection \<open>Abnormal closures spend the whole budget\<close>

lemma dispatch_exhaust_inv:
  assumes "exhaust_inv B w" and "abnormal ev" and "dispatch ev w = Some w'"
  shows "exhaust_inv B w'"
proof -
  from assms(1) have inv: "budget_inv w" by (simp add: exhaust_inv_def)
  have inv': "budget_inv w'" by (rule dispatch_budget_inv[OF inv assms(3)])
  show ?thesis
  proof (cases ev)
    case (Opened s)
    with assms inv' show ?thesis
      by (auto simp: exhaust_inv_def handleOpen_frame handler_traces nth_list_update
          split: if_splits option.splits)
  next
    case (Message s d)
    with assms inv' show ?thesis
      by (auto simp: exhaust_inv_def handleMessage_frame handler_traces
          split: if_splits option.splits)
  next
    case (Closed s c r)
    with assms inv inv' show ?thesis
      by (auto simp: exhaust_inv_def abnormal_def budget_inv_def handleClose_frame
          handleClose_timers handleClose_trace split: if_splits option.splits)
  next
    case (Errored s m)
    with assms inv' show ?thesis
      by (auto simp: exhaust_inv_def handleError_frame handler_traces
          split: if_splits option.splits)
  next
    case TimerFired
    with assms inv' show ?thesis
      by (auto simp: exhaust_inv_def split: list.splits)
  next
    case (CallOn e f)
    with assms inv' show ?thesis by (auto simp: exhaust_inv_def)
  next
    case (CallSendMessage m)
    with assms inv' show ?thesis
      by (auto simp: exhaust_inv_def sendMessage_frame sendMessage_quiet)
  next
    case CallCloseConnection
    with assms inv' show ?thesis
      by (auto simp: exhaust_inv_def closeConnection_frame closeConnection_sockets
          closeConnection_trace nth_list_update split: if_splits)
  qed
qed

lemma run_exhaust_inv:
  "exhaust_inv B w \<Longrightarrow> list_all abnormal es \<Longrightarrow> run es w = Some w' \<Longrightarrow> exhaust_inv B w'"
proof (induction es arbitrary: w)
  case Nil
  then show ?case by simp
next
  case (Cons e es)
  then show ?case by (auto split: option.splits dest: dispatch_exhaust_inv)
qed

lemma constructor_exhaust_inv:
  "0 \<le> retryAttempts (self (constructor u opt)) \<Longrightarrow>
   exhaust_inv (retryAttempts (self (constructor u opt))) (constructor u opt)"
  using constructor_budget_inv[of u opt]
  by (simp add: exhaust_inv_def constructor_fields) (simp add: constructor_def Let_def)

lemma quiescent_current:
  "budget_inv w \<Longrightarrow> quiescent w \<Longrightarrow> timers w = [] \<and> sockets w ! socket (self w) = CLOSED"
  by (simp add: quiescent_def budget_inv_def list_all_length)

text \<open>
  With a budget \<open>B \<ge> 0\<close> after construction and no clean closure, the connects made and
  the budget left always add up to \<open>B + 1\<close>; once every socket is closed and no timer
  is pending, the budget is spent: the initial connect and exactly \<open>B\<close> reconnects
  have been made.
\<close>

lemma abnormal_closures_spend_budget:
  assumes "0 \<le> retryAttempts (self (constructor u opt))"
    and "list_all abnormal es"
    and "run es (constructor u opt) = Some w"
  shows "int (connects (trace w)) + retryAttempts (self w)
           = retryAttempts (self (constructor u opt)) + 1"
    and "quiescent w \<Longrightarrow>
           int (connects (trace w)) = retryAttempts (self (constructor u opt)) + 1"
proof -
  have e: "exhaust_inv (retryAttempts (self (constructor u opt))) w"
    by (rule run_exhaust_inv[OF constructor_exhaust_inv[OF assms(1)] assms(2,3)])
  then show "int (connects (trace w)) + retryAttempts (self w)
           = retryAttempts (self (constructor u opt)) + 1"
    by (simp add: exhaust_inv_def)
  assume "quiescent w"
  with e quiescent_current[of w]
  show "int (connects (trace w)) = retryAttempts (self (constructor u opt)) + 1"
    by (simp add: exhaust_inv_def)
qed

text \<open>In such a world only the caller can still act: no transport event, no timer.\<close>

lemma quiescent_stuck:
  "quiescent w \<Longrightarrow> dispatch ev w = Some w' \<Longrightarrow>
   (\<exists>e f. ev = CallOn e f) \<or> (\<exists>m. ev = CallSendMessage m) \<or> ev = CallCloseConnection"
  by (cases ev) (auto simp: quiescent_def list_all_length split: if_splits)

subsection \<open>Only registered callbacks are called\<close>

lemma dispatch_invokes_active:
  assumes "f \<notin> active w" and "\<not> registers f ev" and "dispatch ev w = Some w'"
  shows "invocations_of f (trace w') = invocations_of f (trace w) \<and> f \<notin> active w'"
  using assms
  by (cases ev)
     (auto simp: active_def event_names_def registers_def handleOpen_frame handleMessage_frame
        handleError_frame handleClose_frame handleClose_trace handler_traces
        sendMessage_frame sendMessage_quiet closeConnection_frame closeConnection_trace
        split: if_splits option.splits list.splits)

lemma run_invokes_active:
  "f \<notin> active w \<Longrightarrow> \<forall>ev\<in>set es. \<not> registers f ev \<Longrightarrow> run es w = Some w' \<Longrightarrow>
   invocations_of f (trace w') = invocations_of f (trace w)"
proof (induction es arbitrary: w)
  case Nil
  then show ?case by simp
next
  case (Cons e es)
  from Cons.prems obtain w1 where d: "dispatch e w = Some w1" and r: "run es w1 = Some w'"
    by (auto split: option.splits)
  from Cons.prems have ne: "\<not> registers f e" and nes: "\<forall>ev\<in>set es. \<not> registers f ev"
    by simp_all
  from dispatch_invokes_active[OF Cons.prems(1) ne d] Cons.IH[OF _ nes r]
  show ?case by simp
qed

section \<open>The claims\<close>

subsection \<open>Construction\<close>

text \<open>
  A given option that is not 0 is taken as it is, and a missing one takes its default;
  both facts hold for every options object.
\<close>

lemma constructor_option_given:
  "ob ''retryAttempts'' = Some N \<Longrightarrow> N \<noteq> 0 \<Longrightarrow>
     retryAttempts (self (constructor u (Some ob))) = N"
  "ob ''retryDelay'' = Some d \<Longrightarrow> d \<noteq> 0 \<Longrightarrow> retryDelay (self (constructor u (Some ob))) = d"
  by (simp_all add: constructor_fields js_or_def)

lemma constructor_option_default:
  "retryAttempts (self (constructor u None)) = 3"
  "retryDelay (self (constructor u None)) = 1000"
  "ob ''retryAttempts'' = None \<Longrightarrow> retryAttempts (self (constructor u (Some ob))) = 3"
  "ob ''retryDelay'' = None \<Longrightarrow> retryDelay (self (constructor u (Some ob))) = 1000"
  by (simp_all add: constructor_fields js_or_def)

text \<open>
  Claim C1: with \<^verbatim>\<open>retryAttempts = N\<close> and abnormal closures only, exactly \<open>N\<close>
  reconnects are made. At \<open>N = 0\<close> the claim promises no reconnect at all; the code,
  whose \<^verbatim>\<open>options.retryAttempts || 3\<close> reads 0 as a missing option, reconnects three
  times: four sockets are created before the budget is spent and no timer is left.
  (For a budget that is positive after construction, \<open>abnormal_closures_spend_budget\<close>
  is what the claim says.)
\<close>

theorem retryAttempts_zero_reconnects_thrice:
  "map_option (\<lambda>w. (connects (trace w), retryAttempts (self w), timers w))
     (run [Closed 0 1006 [], TimerFired, Closed 1 1006 [], TimerFired,
           Closed 2 1006 [], TimerFired, Closed 3 1006 []]
        (constructor ''wss://example.com'' (Some [''retryAttempts'' \<mapsto> 0])))
   = Some (4, 0, [])"
  by (simp add: eval_defs)

text \<open>
  Claim C2: \<^verbatim>\<open>{retryAttempts: N}\<close> sets the budget to \<open>N\<close>, also for \<open>N = 0\<close>; a missing
  option gives 3. The code gives the budget 3 for \<^verbatim>\<open>{retryAttempts: 0}\<close>.
\<close>

theorem retryAttempts_zero_gives_three:
  "retryAttempts (self (constructor ''wss://example.com'' (Some [''retryAttempts'' \<mapsto> 0]))) = 3"
  by (simp add: constructor_fields js_or_def)

text \<open>
  Claim C3, as stated: \<^verbatim>\<open>{retryDelayMs: d}\<close> sets the pause before each reconnect to
  \<open>d\<close>. The constructor reads the property \<^verbatim>\<open>retryDelay\<close>; \<^verbatim>\<open>retryDelayMs\<close> is never
  read, so with \<^verbatim>\<open>{retryAttempts: 2, retryDelayMs: 50}\<close> the delay is 1000 and the timer
  set by the first abnormal closure waits 1000 ms.
\<close>

theorem retryDelayMs_not_read:
  "retryDelay (self (constructor ''wss://example.com''
       (Some [''retryAttempts'' \<mapsto> 2, ''retryDelayMs'' \<mapsto> 50]))) = 1000
   \<and> map_option timers (run [Closed 0 1006 []] (constructor ''wss://example.com''
       (Some [''retryAttempts'' \<mapsto> 2, ''retryDelayMs'' \<mapsto> 50]))) = Some [1000]"
  by (simp add: constructor_fields js_or_def handleClose_timers)

text \<open>
  Claim C3, amended: for every positive integer \<open>d\<close>, constructing with
  \<^verbatim>\<open>{retryDelay: d}\<close> sets the pause to \<open>d\<close>, and without the option (or without any
  options object) it is 1000: in every state reached afterwards the field holds that
  value, and so does every timer, pending or ever set.
\<close>

theorem retryDelay_option_fixes_pause:
  assumes "opt = Some ob \<and> ob ''retryDelay'' = Some d \<and> 0 < d
           \<or> (opt = None \<or> opt = Some ob \<and> ob ''retryDelay'' = None) \<and> d = 1000"
    and "run es (constructor u opt) = Some w"
  shows "retryDelay (self w) = d \<and> set (timers w) \<subseteq> {d} \<and> set (timeouts (trace w)) \<subseteq> {d}"
proof -
  from assms(1) have "retryDelay (self (constructor u opt)) = d"
    by (auto simp: constructor_fields js_or_def)
  with run_delay_inv[OF constructor_delay_inv assms(2)] show ?thesis
    by (simp add: delay_inv_def)
qed

theorem retryDelay_option_fixes_pause_witness:
  "run [Closed 0 1006 []] (constructor ''wss://example.com''
       (Some [''retryAttempts'' \<mapsto> 2, ''retryDelay'' \<mapsto> 50])) \<noteq> None
   \<and> retryDelay (self (the (run [Closed 0 1006 []] (constructor ''wss://example.com''
       (Some [''retryAttempts'' \<mapsto> 2, ''retryDelay'' \<mapsto> 50]))))) = 50
   \<and> timers (the (run [Closed 0 1006 []] (constructor ''wss://example.com''
       (Some [''retryAttempts'' \<mapsto> 2, ''retryDelay'' \<mapsto> 50])))) = [50]
   \<and> timeouts (trace (the (run [Closed 0 1006 []] (constructor ''wss://example.com''
       (Some [''retryAttempts'' \<mapsto> 2, ''retryDelay'' \<mapsto> 50]))))) = [50]"
proof -
  let ?ob = "[''retryAttempts'' \<mapsto> 2, ''retryDelay'' \<mapsto> (50::int)]"
  let ?c = "constructor ''wss://example.com'' (Some ?ob)"
  let ?w = "the (run [Closed 0 1006 []] ?c)"
  have r: "run [Closed 0 1006 []] ?c = Some ?w"
    by (simp add: eval_defs)
  have h: "Some ?ob = Some ?ob \<and> ?ob ''retryDelay'' = Some 50 \<and> (0::int) < 50
           \<or> (Some ?ob = None \<or> Some ?ob = Some ?ob \<and> ?ob ''retryDelay'' = None)
             \<and> (50::int) = 1000"
    by simp
  from retryDelay_option_fixes_pause[OF h r] r show ?thesis
    by (simp add: eval_defs)
qed

subsection \<open>Closures\<close>

text \<open>
  Claim C4: a close event with code 1000 never leads to a reconnect, whatever budget is
  left: the handler sets no timer, opens no socket and leaves the object as it is.
\<close>

theorem clean_close_never_reconnects:
  "code ev = 1000 \<Longrightarrow>
     timers (handleClose ev w) = timers w
     \<and> timeouts (trace (handleClose ev w)) = timeouts (trace w)
     \<and> connects (trace (handleClose ev w)) = connects (trace w)
     \<and> sockets (handleClose ev w) = sockets w
     \<and> self (handleClose ev w) = self w"
  by (simp add: handleClose_frame handleClose_timers handleClose_trace split: option.split)

theorem clean_close_never_reconnects_witness:
  "code \<lparr>code = 1000, reason = ''bye''\<rparr> = 1000
   \<and> retryAttempts (self (constructor ''wss://example.com'' None)) = 3
   \<and> timers (handleClose \<lparr>code = 1000, reason = ''bye''\<rparr>
        (constructor ''wss://example.com'' None)) = []
   \<and> connects (trace (handleClose \<lparr>code = 1000, reason = ''bye''\<rparr>
        (constructor ''wss://example.com'' None))) = 1"
  using clean_close_never_reconnects
    [of "\<lparr>code = 1000, reason = ''bye''\<rparr>" "constructor ''wss://example.com'' None"]
  by (simp add: constructor_fields js_or_def) (simp add: constructor_def)

text \<open>
  Claim C7: for every close event the registered close callback, if there is one, is
  called exactly once, with the code and the reason of that event, whether or not a
  reconnect is scheduled; without a registered callback none is called.
\<close>

theorem close_callback_once:
  "invocations (trace (handleClose ev w)) =
     invocations (trace w)
     @ (case listeners (self w) ''close'' of None \<Rightarrow> []
        | Some f \<Rightarrow> [Invoke f [JNum (code ev), JStr (reason ev)]])"
  by (simp add: handleClose_trace invocations_def split: option.split)

theorem close_callback_once_witness:
  "invocations (trace (handleClose \<lparr>code = 1006, reason = ''lost''\<rparr>
      (on ''close'' 7 (constructor ''wss://example.com'' None))))
   = [Invoke 7 [JNum 1006, JStr ''lost'']]
   \<and> timers (handleClose \<lparr>code = 1006, reason = ''lost''\<rparr>
      (on ''close'' 7 (constructor ''wss://example.com'' None))) = [1000]"
  using close_callback_once
    [of "\<lparr>code = 1006, reason = ''lost''\<rparr>" "on ''close'' 7 (constructor ''wss://example.com'' None)"]
  by (simp add: handleClose_timers constructor_fields js_or_def)
     (simp add: constructor_def invocations_def)

subsection \<open>Sending and closing\<close>

text \<open>
  Claim C5: \<^verbatim>\<open>sendMessage(m)\<close> hands \<open>m\<close>, unchanged, to the current socket exactly when
  that socket is OPEN. Otherwise nothing is written and all that happens is one line on
  the error console. In both cases no callback is called and neither the object, nor the
  sockets, nor the timers change: no state exists in which a message could wait. The
  method has no failing branch; its result is always a world.
\<close>

theorem sendMessage_guarded:
  "sends (trace (sendMessage m w)) =
     sends (trace w) @ (if socket_readyState w = Some OPEN then [(socket (self w), m)] else [])
   \<and> (socket_readyState w \<noteq> Some OPEN \<longrightarrow>
        (\<exists>d. trace (sendMessage m w) = trace w @ [ConsoleError d]))
   \<and> invocations (trace (sendMessage m w)) = invocations (trace w)
   \<and> self (sendMessage m w) = self w
   \<and> sockets (sendMessage m w) = sockets w
   \<and> timers (sendMessage m w) = timers w"
  by (simp add: sendMessage_def sends_def invocations_def)

theorem sendMessage_guarded_witness:
  "socket_readyState (constructor ''wss://example.com'' None) \<noteq> Some OPEN
   \<and> sends (trace (sendMessage ''Hello, WebSocket!'' (constructor ''wss://example.com'' None))) = []
   \<and> socket_readyState (the (dispatch (Opened 0) (constructor ''wss://example.com'' None)))
       = Some OPEN
   \<and> sends (trace (sendMessage ''Hello, WebSocket!''
        (the (dispatch (Opened 0) (constructor ''wss://example.com'' None)))))
       = [(0, ''Hello, WebSocket!'')]"
  using sendMessage_guarded
    [of "''Hello, WebSocket!''" "constructor ''wss://example.com'' None"]
    sendMessage_guarded
    [of "''Hello, WebSocket!''" "the (dispatch (Opened 0) (constructor ''wss://example.com'' None))"]
  by (simp add: socket_readyState_def constructor_fields handleOpen_frame handler_traces)
     (simp add: constructor_def sends_def)

text \<open>
  Claim C6, as stated: every \<^verbatim>\<open>closeConnection()\<close> closes the current socket with code
  1000 and the reason \<^verbatim>\<open>Client closed the connection\<close>, and the closure that results
  never starts a reconnect. The object keeps no mark of the request: \<^verbatim>\<open>handleClose\<close>
  decides by the code the transport reports. Closed right after construction, while
  still connecting, a socket whose closure is reported with code 1006 gets its retry
  timer, and when the timer fires a second socket is opened, out of a budget of 3.
\<close>

theorem closeConnection_then_abnormal_closure_reconnects:
  "map_option timers
     (run [CallCloseConnection, Closed 0 1006 []] (constructor ''wss://example.com'' None))
   = Some [1000]
   \<and> map_option (\<lambda>w. (connects (trace w), retryAttempts (self w)))
       (run [CallCloseConnection, Closed 0 1006 [], TimerFired]
          (constructor ''wss://example.com'' None))
     = Some (2, 2)"
  by (simp add: eval_defs)

text \<open>
  Claim C6, amended: every \<^verbatim>\<open>closeConnection()\<close> closes the current socket with code
  1000 and the reason \<^verbatim>\<open>Client closed the connection\<close>, sets no timer and changes no
  field; a socket that was connecting or open is closing afterwards. The closure of that
  socket starts no reconnect when the transport reports it with code 1000. In general
  it sets a timer exactly when the reported code is not 1000 and budget is left; it
  never opens a socket by itself.
\<close>

theorem closeConnection_clean:
  "trace (closeConnection w) =
     trace w @ [SocketClose (socket (self w)) 1000 ''Client closed the connection'',
                ConsoleLog (''[SocketInsight] Closed connection to '' @ url (self w))]
   \<and> self (closeConnection w) = self w
   \<and> timers (closeConnection w) = timers w
   \<and> (socket_readyState w = Some CONNECTING \<or> socket_readyState w = Some OPEN \<longrightarrow>
        socket_readyState (closeConnection w) = Some CLOSING)
   \<and> (dispatch (Closed (socket (self w)) c r) (closeConnection w) = Some w' \<longrightarrow>
        self w' = self w
        \<and> length (sockets w') = length (sockets w)
        \<and> connects (trace w') = connects (trace w)
        \<and> timers w' =
            timers w @ (if c \<noteq> 1000 \<and> 0 < retryAttempts (self w)
                        then [retryDelay (self w)] else [])
        \<and> (c = 1000 \<longrightarrow>
             timers w' = timers w \<and> timeouts (trace w') = timeouts (trace w)))"
proof -
  have live: "socket_readyState (closeConnection w) = Some CLOSING"
    if "socket_readyState w = Some CONNECTING \<or> socket_readyState w = Some OPEN"
    using that
    by (auto simp: socket_readyState_def closeConnection_frame closeConnection_sockets
        split: if_splits)
  have closure: "self w' = self w \<and> length (sockets w') = length (sockets w)
        \<and> connects (trace w') = connects (trace w)
        \<and> timers w' =
            timers w @ (if c \<noteq> 1000 \<and> 0 < retryAttempts (self w)
                        then [retryDelay (self w)] else [])
        \<and> (c = 1000 \<longrightarrow>
             timers w' = timers w \<and> timeouts (trace w') = timeouts (trace w))"
    if "dispatch (Closed (socket (self w)) c r) (closeConnection w) = Some w'"
    using that
    by (auto simp: closeConnection_trace closeConnection_frame handleClose_frame
        handleClose_timers handleClose_trace split: option.split if_splits)
  from live closure show ?thesis
    by (simp add: closeConnection_trace closeConnection_frame)
qed

theorem closeConnection_clean_witness:
  "socket_readyState (the (dispatch (Opened 0) (constructor ''wss://example.com'' None)))
     = Some OPEN
   \<and> socket_readyState (closeConnection
        (the (dispatch (Opened 0) (constructor ''wss://example.com'' None)))) = Some CLOSING
   \<and> dispatch (Closed 0 1000 ''Client closed the connection'')
       (closeConnection (the (dispatch (Opened 0) (constructor ''wss://example.com'' None))))
       \<noteq> None
   \<and> retryAttempts (self (the (dispatch (Opened 0) (constructor ''wss://example.com'' None))))
       = 3
   \<and> timers (the (dispatch (Closed 0 1000 ''Client closed the connection'')
       (closeConnection (the (dispatch (Opened 0) (constructor ''wss://example.com'' None))))))
       = []
   \<and> connects (trace (the (dispatch (Closed 0 1000 ''Client closed the connection'')
       (closeConnection (the (dispatch (Opened 0) (constructor ''wss://example.com'' None)))))))
       = 1"
proof -
  define c where "c = the (dispatch (Opened 0) (constructor ''wss://example.com'' None))"
  define w where
    "w = the (dispatch (Closed 0 1000 ''Client closed the connection'') (closeConnection c))"
  have s: "socket (self c) = 0" "socket_readyState c = Some OPEN"
    unfolding c_def by (simp_all add: eval_defs)
  have d: "dispatch (Closed (socket (self c)) 1000 ''Client closed the connection'')
             (closeConnection c) = Some w"
    unfolding w_def c_def by (simp add: eval_defs)
  have c0: "connects (trace c) = 1" "timers c = []" "retryAttempts (self c) = 3"
    unfolding c_def by (simp_all add: eval_defs)
  note t = closeConnection_clean[of c 1000 "''Client closed the connection''" w]
  from t s(2) have cl: "socket_readyState (closeConnection c) = Some CLOSING"
    by blast
  from t d have "timers w = timers c" "connects (trace w) = connects (trace c)"
    by blast+
  with c0 have "timers w = []" "connects (trace w) = 1"
    by simp_all
  moreover have "dispatch (Closed 0 1000 ''Client closed the connection'') (closeConnection c)
      \<noteq> None"
    using d unfolding s(1) by simp
  ultimately show ?thesis
    using c0(3) s(2) cl unfolding w_def c_def by blast
qed

subsection \<open>Callbacks\<close>

text \<open>
  Claim C8: registering \<open>f\<close> and then \<open>g\<close> under the name \<open>e\<close> leaves \<open>g\<close>, and only
  \<open>g\<close>, stored for \<open>e\<close> (every other name keeps what it had), and no later event calls
  \<open>f\<close>. Here \<open>f\<close> is another callback than \<open>g\<close>, it is stored under no other of the four
  event names, and the later events do not register it again. A callback registered
  under a name outside open, message, close and error is stored under that name, and no
  event calls it, unless it is registered under one of the four names as well.
\<close>

theorem on_replaces_and_unknown_names_inert:
  "(f \<noteq> g \<and> (\<forall>n\<in>event_names. n \<noteq> e \<longrightarrow> listeners (self w) n \<noteq> Some f)
      \<and> (\<forall>ev\<in>set es. \<not> registers f ev) \<and> run es (on e g (on e f w)) = Some w'
    \<longrightarrow> listeners (self (on e g (on e f w))) = (listeners (self w))(e \<mapsto> g)
        \<and> invocations_of f (trace w') = invocations_of f (trace w))
   \<and> (e \<notin> event_names \<and> f \<notin> active w
      \<and> (\<forall>ev\<in>set es. \<not> registers f ev) \<and> run es (on e f w) = Some w''
    \<longrightarrow> listeners (self (on e f w)) e = Some f
        \<and> invocations_of f (trace w'') = invocations_of f (trace w))"
proof (intro conjI impI)
  assume h: "f \<noteq> g \<and> (\<forall>n\<in>event_names. n \<noteq> e \<longrightarrow> listeners (self w) n \<noteq> Some f)
      \<and> (\<forall>ev\<in>set es. \<not> registers f ev) \<and> run es (on e g (on e f w)) = Some w'"
  show "listeners (self (on e g (on e f w))) = (listeners (self w))(e \<mapsto> g)" by simp
  from h have "f \<notin> active (on e g (on e f w))" by (auto simp: active_def)
  with h run_invokes_active[of f "on e g (on e f w)" es w']
  show "invocations_of f (trace w') = invocations_of f (trace w)" by simp
next
  assume h: "e \<notin> event_names \<and> f \<notin> active w
      \<and> (\<forall>ev\<in>set es. \<not> registers f ev) \<and> run es (on e f w) = Some w''"
  show "listeners (self (on e f w)) e = Some f" by simp
  from h have "f \<notin> active (on e f w)" by (auto simp: active_def)
  with h run_invokes_active[of f "on e f w" es w'']
  show "invocations_of f (trace w'') = invocations_of f (trace w)" by simp
qed

theorem on_replaces_and_unknown_names_inert_witness:
  "listeners (self (on ''message'' 2 (on ''message'' 1 (constructor ''wss://example.com'' None))))
       ''message'' = Some 2
   \<and> invocations_of 1 (trace (the (run [Opened 0, Message 0 ''ping'']
       (on ''message'' 2 (on ''message'' 1 (constructor ''wss://example.com'' None)))))) = []
   \<and> invocations_of 2 (trace (the (run [Opened 0, Message 0 ''ping'']
       (on ''message'' 2 (on ''message'' 1 (constructor ''wss://example.com'' None))))))
       = [Invoke 2 [JStr ''ping'']]
   \<and> listeners (self (on ''pong'' 1 (constructor ''wss://example.com'' None))) ''pong'' = Some 1
   \<and> invocations_of 1 (trace (the (run [Opened 0, Message 0 ''ping'']
       (on ''pong'' 1 (constructor ''wss://example.com'' None))))) = []"
proof -
  let ?c = "constructor ''wss://example.com'' None"
  let ?es = "[Opened 0, Message 0 ''ping'']"
  let ?w' = "the (run ?es (on ''message'' 2 (on ''message'' 1 ?c)))"
  let ?w'' = "the (run ?es (on ''pong'' 1 ?c))"
  have r1: "run ?es (on ''message'' 2 (on ''message'' 1 ?c)) = Some ?w'"
    by (simp add: eval_defs)
  have r2: "run ?es (on ''pong'' 1 ?c) = Some ?w''"
    by (simp add: eval_defs)
  have c: "listeners (self ?c) = Map.empty" "invocations_of 1 (trace ?c) = []"
    by (simp_all add: constructor_def)
  have a: "1 \<notin> active ?c" "''pong'' \<notin> event_names"
    by (simp_all add: active_def event_names_def c)
  have n: "\<forall>ev\<in>set ?es. \<not> registers 1 ev"
    by (simp add: registers_def)
  have two: "invocations_of 2 (trace ?w') = [Invoke 2 [JStr ''ping'']]"
    by (simp add: eval_defs)
  from on_replaces_and_unknown_names_inert
         [of 1 2 "''message''" ?c ?es ?w' "the (run ?es (on ''message'' 1 ?c))"] r1 n c
  have p1: "listeners (self (on ''message'' 2 (on ''message'' 1 ?c))) ''message'' = Some 2"
       "invocations_of 1 (trace ?w') = []"
    by simp_all
  from on_replaces_and_unknown_names_inert
         [of 1 2 "''pong''" ?c ?es "the (run ?es (on ''pong'' 2 (on ''pong'' 1 ?c)))" ?w''] r2 n a c
  have p2: "listeners (self (on ''pong'' 1 ?c)) ''pong'' = Some 1"
       "invocations_of 1 (trace ?w'') = []"
    by simp_all
  from p1 p2 two show ?thesis by simp
qed

subsection \<open>The retry budget\<close>

text \<open>
  Claim C9: after a construction with a non-negative \<^verbatim>\<open>retryAttempts\<close> the retry budget
  is at least 0 in every state that event dispatch can reach, and once it is 0 no
  reconnect is attempted any more: no timer is pending, and whatever happens next, the
  budget stays 0, no timer is set and no socket is opened.
\<close>

theorem retry_budget_never_negative:
  assumes "0 \<le> N" and "ob ''retryAttempts'' = Some N"
    and "run es (constructor u (Some ob)) = Some w"
  shows "0 \<le> retryAttempts (self w) \<and>
         (retryAttempts (self w) = 0 \<and> run es' w = Some w' \<longrightarrow>
            timers w = [] \<and> retryAttempts (self w') = 0 \<and> timers w' = []
            \<and> connects (trace w') = connects (trace w)
            \<and> timeouts (trace w') = timeouts (trace w))"
proof -
  have "0 \<le> retryAttempts (self (constructor u (Some ob)))"
    using assms(1,2) by (simp add: constructor_fields js_or_def)
  then have inv: "budget_inv w"
    using run_budget_inv[OF constructor_budget_inv assms(3)] by simp
  have t: "timers v = []" if "budget_inv v" "retryAttempts (self v) = 0" for v
    using that by (auto simp: budget_inv_def)
  show ?thesis
  proof (intro conjI impI)
    show "0 \<le> retryAttempts (self w)" using inv by (simp add: budget_inv_def)
  next
    assume "retryAttempts (self w) = 0 \<and> run es' w = Some w'"
    then show "timers w = []" using inv t by blast
  next
    assume "retryAttempts (self w) = 0 \<and> run es' w = Some w'"
    then have z: "retryAttempts (self w) = 0" and r: "run es' w = Some w'" by simp_all
    from run_exhausted[OF inv z r] run_budget_inv[OF inv r] t
    show "retryAttempts (self w') = 0" "timers w' = []"
      "connects (trace w') = connects (trace w)" "timeouts (trace w') = timeouts (trace w)"
      by auto
  qed
qed

theorem retry_budget_never_negative_witness:
  "run [Closed 0 1006 [], TimerFired] (constructor ''wss://example.com''
       (Some [''retryAttempts'' \<mapsto> 1])) \<noteq> None
   \<and> retryAttempts (self (the (run [Closed 0 1006 [], TimerFired]
       (constructor ''wss://example.com'' (Some [''retryAttempts'' \<mapsto> 1]))))) = 0
   \<and> run [Opened 1, Closed 1 1006 []] (the (run [Closed 0 1006 [], TimerFired]
       (constructor ''wss://example.com'' (Some [''retryAttempts'' \<mapsto> 1])))) \<noteq> None
   \<and> timers (the (run [Opened 1, Closed 1 1006 []] (the (run [Closed 0 1006 [], TimerFired]
       (constructor ''wss://example.com'' (Some [''retryAttempts'' \<mapsto> 1])))))) = []
   \<and> connects (trace (the (run [Opened 1, Closed 1 1006 []]
       (the (run [Closed 0 1006 [], TimerFired]
       (constructor ''wss://example.com'' (Some [''retryAttempts'' \<mapsto> 1]))))))) = 2"
proof -
  define ob :: options where "ob = [''retryAttempts'' \<mapsto> 1]"
  define w where
    "w = the (run [Closed 0 1006 [], TimerFired] (constructor ''wss://example.com'' (Some ob)))"
  define w' where "w' = the (run [Opened 1, Closed 1 1006 []] w)"
  have r: "run [Closed 0 1006 [], TimerFired] (constructor ''wss://example.com'' (Some ob)) = Some w"
    unfolding w_def ob_def by (simp add: eval_defs)
  have z: "retryAttempts (self w) = 0" "connects (trace w) = 2"
    unfolding w_def ob_def by (simp_all add: eval_defs)
  have r': "run [Opened 1, Closed 1 1006 []] w = Some w'"
    unfolding w'_def w_def ob_def by (simp add: eval_defs)
  have h: "(0::int) \<le> 1" "ob ''retryAttempts'' = Some 1"
    by (simp_all add: ob_def)
  from retry_budget_never_negative[OF h r, of "[Opened 1, Closed 1 1006 []]" w'] z(1) r'
  have "timers w' = []" "connects (trace w') = connects (trace w)"
    by blast+
  with z have "timers w' = []" "connects (trace w') = 2"
    by simp_all
  moreover have "run [Closed 0 1006 [], TimerFired]
      (constructor ''wss://example.com'' (Some ob)) \<noteq> None"
    unfolding r by simp
  moreover have "run [Opened 1, Closed 1 1006 []] w \<noteq> None"
    unfolding r' by simp
  ultimately show ?thesis
    using z(1) unfolding w'_def w_def ob_def by blast
qed

subsection \<open>The other handlers\<close>

text \<open>
  Claim C10: the handlers of the open, message and error events change no field of the
  object (url, budget, delay, listeners, socket), no socket and no timer. Each writes
  one line to the console and calls the callback registered under its name, if any. So
  a connection that opens does not reset the budget, and an error alone schedules no
  reconnect.
\<close>

theorem other_handlers_frame:
  "self (handleOpen w) = self w \<and> sockets (handleOpen w) = sockets w
   \<and> timers (handleOpen w) = timers w
   \<and> trace (handleOpen w) =
       trace w @ [ConsoleLog (''[SocketInsight] Connected to '' @ url (self w))]
       @ (case listeners (self w) ''open'' of None \<Rightarrow> [] | Some f \<Rightarrow> [Invoke f []])
   \<and> self (handleMessage d w) = self w \<and> sockets (handleMessage d w) = sockets w
   \<and> timers (handleMessage d w) = timers w
   \<and> trace (handleMessage d w) =
       trace w @ [ConsoleLog (''[SocketInsight] Received message: '' @ d)]
       @ (case listeners (self w) ''message'' of None \<Rightarrow> [] | Some f \<Rightarrow> [Invoke f [JStr d]])
   \<and> self (handleError m w) = self w \<and> sockets (handleError m w) = sockets w
   \<and> timers (handleError m w) = timers w
   \<and> trace (handleError m w) =
       trace w @ [ConsoleError (''[SocketInsight] Error: '' @ m)]
       @ (case listeners (self w) ''error'' of None \<Rightarrow> []
          | Some f \<Rightarrow> [Invoke f [JErrorEvent m]])
   \<and> timeouts (trace (handleError m w)) = timeouts (trace w)
   \<and> connects (trace (handleError m w)) = connects (trace w)"
  by (simp add: handleOpen_frame handleMessage_frame handleError_frame handler_traces
      split: option.split)

theorem other_handlers_frame_witness:
  "retryAttempts (self (the (run [Closed 0 1006 [], TimerFired, Opened 1]
       (constructor ''wss://example.com'' None)))) = 2
   \<and> retryAttempts (self (handleOpen (the (run [Closed 0 1006 [], TimerFired, Opened 1]
       (constructor ''wss://example.com'' None))))) = 2
   \<and> timers (handleError ''ECONNREFUSED'' (constructor ''wss://example.com'' None)) = []
   \<and> connects (trace (handleError ''ECONNREFUSED'' (constructor ''wss://example.com'' None))) = 1"
  using other_handlers_frame
    [of "the (run [Closed 0 1006 [], TimerFired, Opened 1] (constructor ''wss://example.com'' None))"]
    other_handlers_frame
    [of "constructor ''wss://example.com'' None" _ "''ECONNREFUSED''"]
  by (simp add: eval_defs)

end
